theory Spec2Isabelle
  imports Main
begin

section \<open>Theme values\<close>

text \<open>
  \<^verbatim>\<open>type Theme = 'light' | 'dark' | 'system'\<close>. At run time a theme is one of three
  strings; \<open>theme_str\<close> gives the string of a member, and it is this string that is
  written to storage and added to the class list of the document root.
\<close>

datatype Theme = Light | Dark | System

fun theme_str :: "Theme \<Rightarrow> string" where
  "theme_str Light = ''light''"
| "theme_str Dark = ''dark''"
| "theme_str System = ''system''"

text \<open>
  The cast \<^verbatim>\<open>as Theme\<close> of a stored string: the member whose string it is, if any.
\<close>

definition as_Theme :: "string \<Rightarrow> Theme option" where
  "as_Theme s =
     (if s = ''light'' then Some Light
      else if s = ''dark'' then Some Dark
      else if s = ''system'' then Some System
      else None)"

section \<open>The page: hook state of the provider and the browser objects it touches\<close>

text \<open>
  \<open>themeState\<close> and \<open>resolvedThemeState\<close> are the two \<^verbatim>\<open>useState\<close> cells of
  \<^verbatim>\<open>ThemeProvider\<close>. TypeScript gives the second one the narrower type
  \<^verbatim>\<open>'light' | 'dark'\<close>, which is erased at run time; the field is kept at type
  \<open>Theme\<close> here, so that "never \<open>system\<close>" is a statement about the code and not about
  the type. \<open>rendered\<close> holds the values \<open>(theme, resolvedTheme)\<close> of the last committed
  render, against which React compares the dependency arrays \<^verbatim>\<open>[theme]\<close> and
  \<^verbatim>\<open>[resolvedTheme]\<close>; it is \<open>None\<close> before the first commit. \<open>localStorage\<close> is the
  browser's key-value store, \<open>classList\<close> the token list of
  \<^verbatim>\<open>document.documentElement\<close>, \<open>prefersDark\<close> the current answer of
  \<^verbatim>\<open>window.matchMedia('(prefers-color-scheme: dark)').matches\<close>, and
  \<open>changeListeners\<close> the \<^verbatim>\<open>change\<close> handlers registered on that media query, each
  identified by the \<^verbatim>\<open>theme\<close> its closure captured.
\<close>

record page =
  themeState :: Theme
  resolvedThemeState :: Theme
  rendered :: "(Theme \<times> Theme) option"
  localStorage :: "string \<rightharpoonup> string"
  classList :: "string list"
  prefersDark :: bool
  changeListeners :: "Theme list"

definition setThemeState :: "Theme \<Rightarrow> page \<Rightarrow> page" where
  "setThemeState t p = p\<lparr>themeState := t\<rparr>"

definition setResolvedTheme :: "Theme \<Rightarrow> page \<Rightarrow> page" where
  "setResolvedTheme t p = p\<lparr>resolvedThemeState := t\<rparr>"

definition getItem :: "string \<Rightarrow> page \<Rightarrow> string option" where
  "getItem k p = localStorage p k"

definition setItem :: "string \<Rightarrow> string \<Rightarrow> page \<Rightarrow> page" where
  "setItem k v p = p\<lparr>localStorage := (localStorage p)(k \<mapsto> v)\<rparr>"

text \<open>
  \<^verbatim>\<open>DOMTokenList.remove\<close> drops every occurrence of the given tokens;
  \<^verbatim>\<open>DOMTokenList.add\<close> appends a token that is not yet present. The storage is taken
  to accept every write: \<^verbatim>\<open>setItem\<close> on a full or disabled storage is outside the
  model.
\<close>

definition classList_remove :: "string list \<Rightarrow> string list \<Rightarrow> string list" where
  "classList_remove ts cl = filter (\<lambda>c. c \<notin> set ts) cl"

definition classList_add :: "string \<Rightarrow> string list \<Rightarrow> string list" where
  "classList_add t cl = (if t \<in> set cl then cl else cl @ [t])"

section \<open>ThemeProvider\<close>

subsection \<open>Resolution (lines 71--93)\<close>

text \<open>
  \<^verbatim>\<open>updateResolvedTheme\<close> and \<^verbatim>\<open>handler\<close> are closures of one render: \<open>theme\<close> is the
  value that render saw.
\<close>

definition updateResolvedTheme :: "Theme \<Rightarrow> page \<Rightarrow> page" where
  "updateResolvedTheme theme p =
     (if theme = System then
        (let systemPreference = (if prefersDark p then Dark else Light)
         in setResolvedTheme systemPreference p)
      else setResolvedTheme theme p)"

definition handler :: "Theme \<Rightarrow> page \<Rightarrow> page" where
  "handler theme p = (if theme = System then updateResolvedTheme theme p else p)"

subsection \<open>The three effects (lines 52--117)\<close>

text \<open>
  First effect, dependencies \<^verbatim>\<open>[]\<close>: restore the saved preference. The guard is
  \<^verbatim>\<open>savedTheme && ['light', 'dark', 'system'].includes(savedTheme)\<close>: a missing key
  gives \<^verbatim>\<open>null\<close> and the empty string is falsy.
\<close>

definition includes_str :: "string list \<Rightarrow> string \<Rightarrow> bool" where
  "includes_str xs s = (s \<in> set xs)"

definition restore_effect :: "page \<Rightarrow> page" where
  "restore_effect p =
     (case getItem ''theme'' p of
        None \<Rightarrow> p
      | Some savedTheme \<Rightarrow>
          if savedTheme \<noteq> [] \<and> includes_str [''light'', ''dark'', ''system''] savedTheme then
            (case as_Theme savedTheme of
               Some t \<Rightarrow> setThemeState t p
             | None \<Rightarrow> p)
          else p)"

text \<open>
  Second effect, dependencies \<^verbatim>\<open>[theme]\<close>: resolve, then register \<^verbatim>\<open>handler\<close> on
  the media query. Its cleanup removes the handler it registered.
\<close>

definition resolve_effect :: "Theme \<Rightarrow> page \<Rightarrow> page" where
  "resolve_effect theme p =
     (let p' = updateResolvedTheme theme p
      in p'\<lparr>changeListeners := changeListeners p' @ [theme]\<rparr>)"

definition resolve_cleanup :: "Theme \<Rightarrow> page \<Rightarrow> page" where
  "resolve_cleanup theme p = p\<lparr>changeListeners := remove1 theme (changeListeners p)\<rparr>"

text \<open>
  Third effect, dependencies \<^verbatim>\<open>[resolvedTheme]\<close>: remove both markers from the root's
  class list, then add the one of this render's \<^verbatim>\<open>resolvedTheme\<close>.
\<close>

definition apply_effect :: "Theme \<Rightarrow> page \<Rightarrow> page" where
  "apply_effect resolvedTheme p =
     p\<lparr>classList :=
         classList_add (theme_str resolvedTheme)
           (classList_remove [''light'', ''dark''] (classList p))\<rparr>"

subsection \<open>Rendering\<close>

text \<open>
  \<open>ThemeProvider_init\<close> is the state of a provider that has not rendered yet: the two
  \<^verbatim>\<open>useState\<close> initial values of lines 39 and 43, whatever the page holds.
\<close>

definition ThemeProvider_init :: "page \<Rightarrow> page" where
  "ThemeProvider_init p =
     p\<lparr>themeState := System, resolvedThemeState := Light, rendered := None\<rparr>"

text \<open>
  One render and its commit. The render reads \<open>theme\<close> and \<open>resolvedTheme\<close> from the
  hooks; every effect that runs is a closure over these two values. On the first commit
  all three effects run, in the order they are declared. On a later commit an effect
  runs when its dependency differs from the one of the previous render, after the
  cleanup of its previous run. State set by an effect is seen by the next render only.
\<close>

definition commit :: "page \<Rightarrow> page" where
  "commit p =
     (let theme = themeState p; resolvedTheme = resolvedThemeState p;
          p' = (case rendered p of
                  None \<Rightarrow>
                    apply_effect resolvedTheme (resolve_effect theme (restore_effect p))
                | Some (theme0, resolvedTheme0) \<Rightarrow>
                    (let p1 = (if theme \<noteq> theme0
                               then resolve_effect theme (resolve_cleanup theme0 p) else p)
                     in if resolvedTheme \<noteq> resolvedTheme0
                        then apply_effect resolvedTheme p1 else p1))
      in p'\<lparr>rendered := Some (theme, resolvedTheme)\<rparr>)"

text \<open>
  React renders again as long as the effects of a commit changed the state.
\<close>

definition state_changed :: "page \<Rightarrow> page \<Rightarrow> bool" where
  "state_changed p p' =
     (themeState p' \<noteq> themeState p \<or> resolvedThemeState p' \<noteq> resolvedThemeState p)"

definition pending :: "page \<Rightarrow> nat" where
  "pending p =
     (case rendered p of
        None \<Rightarrow> 3
      | Some (theme0, resolvedTheme0) \<Rightarrow>
          if themeState p \<noteq> theme0 then 2
          else if resolvedThemeState p \<noteq> resolvedTheme0 then 1 else 0)"

lemma commit_pending:
  "state_changed p (commit p) \<Longrightarrow> pending (commit p) < pending p"
  by (auto simp: state_changed_def pending_def commit_def Let_def restore_effect_def
      resolve_effect_def resolve_cleanup_def apply_effect_def updateResolvedTheme_def
      setResolvedTheme_def setThemeState_def split: option.splits if_splits)

function settle :: "page \<Rightarrow> page" where
  "settle p = (if state_changed p (commit p) then settle (commit p) else commit p)"
  by pat_completeness auto
termination
  by (relation "measure pending") (simp_all add: commit_pending)

declare settle.simps [simp del]

subsection \<open>Events\<close>

text \<open>Mounting the provider on a page: the first render and all that follow from it.\<close>

definition mount :: "page \<Rightarrow> page" where
  "mount p = settle (ThemeProvider_init (p\<lparr>changeListeners := []\<rparr>))"

text \<open>The setter of the context, lines 127--130.\<close>

definition setTheme :: "Theme \<Rightarrow> page \<Rightarrow> page" where
  "setTheme newTheme p = setItem ''theme'' (theme_str newTheme) (setThemeState newTheme p)"

text \<open>
  The operating system changes its appearance: the media query answers \<open>d\<close> from now on
  and every registered \<^verbatim>\<open>change\<close> handler is called.
\<close>

definition os_change :: "bool \<Rightarrow> page \<Rightarrow> page" where
  "os_change d p =
     (let p' = p\<lparr>prefersDark := d\<rparr> in fold handler (changeListeners p') p')"

text \<open>
  What happens on the page, each followed by the renders it causes. The user interface
  runs on one thread and handles one event at a time, so an event and the renders it
  causes are one step; a page is reachable when mounting the provider and then any
  sequence of such steps leads to it.
\<close>

datatype event = Set_theme Theme | Os_change bool

fun step :: "event \<Rightarrow> page \<Rightarrow> page" where
  "step (Set_theme t) p = settle (setTheme t p)"
| "step (Os_change d) p = settle (os_change d p)"

inductive reachable :: "page \<Rightarrow> bool" where
  reachable_mount: "reachable (mount p)"
| reachable_step: "reachable p \<Longrightarrow> reachable (step e p)"

section \<open>The context and its accessor\<close>

text \<open>
  \<^verbatim>\<open>interface ThemeContextType\<close>, lines 19--23. The fields carry the prefix \<open>ctx_\<close>,
  since \<open>setTheme\<close> names the setter itself. The value the provider passes down in a
  render is built from the state that render reads and the setter of lines 127--130.
\<close>

record ThemeContextType =
  ctx_theme :: Theme
  ctx_setTheme :: "Theme \<Rightarrow> page \<Rightarrow> page"
  ctx_resolvedTheme :: Theme

definition ThemeProvider_value :: "page \<Rightarrow> ThemeContextType" where
  "ThemeProvider_value p =
     \<lparr>ctx_theme = themeState p, ctx_setTheme = setTheme,
      ctx_resolvedTheme = resolvedThemeState p\<rparr>"

text \<open>
  \<^verbatim>\<open>useContext\<close> gives the value of the nearest enclosing \<^verbatim>\<open>Provider\<close> and the
  default of \<^verbatim>\<open>createContext\<close> when there is none. The list holds the values of the
  enclosing providers, innermost first. The context is created with the default
  \<^verbatim>\<open>undefined\<close> (line 25), which is \<open>None\<close> here.
\<close>

fun useContext :: "'a \<Rightarrow> 'a list \<Rightarrow> 'a" where
  "useContext defaultValue [] = defaultValue"
| "useContext defaultValue (v # outer) = v"

text \<open>\<^verbatim>\<open>useTheme\<close>, lines 156--162. A thrown \<^verbatim>\<open>Error\<close> is the left summand.\<close>

datatype error = Error string

definition useTheme :: "ThemeContextType option list \<Rightarrow> error + ThemeContextType" where
  "useTheme providers =
     (case useContext None providers of
        None \<Rightarrow> Inl (Error ''useTheme must be used within a ThemeProvider'')
      | Some context \<Rightarrow> Inr context)"

section \<open>The picker\<close>

text \<open>
  The repository holds two pickers: \<^verbatim>\<open>src/components/ui/ThemeToggle.tsx\<close> and the
  file kept as \<^verbatim>\<open>unnamed/part_001\<close>. Both keep one boolean, \<^verbatim>\<open>isOpen\<close>, and a ref to
  their outermost element. What a render produces is a \<open>view\<close>: the icon on the toggle
  button, what a click on the button calls, and the list items with what a click on
  each calls. The calls are data, in the order the handler makes them.
\<close>

datatype icon = Sun | Moon | Monitor

datatype call = Call_setTheme Theme | Call_setIsOpen bool

record item =
  item_icon :: icon
  item_label :: string
  item_selected :: bool
  item_onClick :: "call list"

record view =
  button_icon :: icon
  button_onClick :: "call list"
  items :: "item list"

text \<open>
  \<^verbatim>\<open>handleClickOutside\<close>, lines 13--18 of both files. An element is a node with an
  identity and children; \<^verbatim>\<open>Node.contains\<close> holds of the node itself and of its
  descendants. The ref is \<open>None\<close> while no element is attached.
\<close>

datatype node = Node nat "node list"

fun contains :: "node \<Rightarrow> nat \<Rightarrow> bool" where
  "contains (Node i children) other = (i = other \<or> (\<exists>c \<in> set children. contains c other))"

definition handleClickOutside :: "node option \<Rightarrow> nat \<Rightarrow> call list" where
  "handleClickOutside dropdownRef_current target =
     (case dropdownRef_current of
        None \<Rightarrow> []
      | Some el \<Rightarrow> if \<not> contains el target then [Call_setIsOpen False] else [])"

subsection \<open>\<^verbatim>\<open>src/components/ui/ThemeToggle.tsx\<close>\<close>

record theme_option =
  opt_value :: Theme
  opt_label :: string
  opt_icon :: icon

definition themeOptions :: "theme_option list" where
  "themeOptions =
     [\<lparr>opt_value = Light, opt_label = ''Light'', opt_icon = Sun\<rparr>,
      \<lparr>opt_value = Dark, opt_label = ''Dark'', opt_icon = Moon\<rparr>,
      \<lparr>opt_value = System, opt_label = ''System'', opt_icon = Monitor\<rparr>]"

definition currentIcon :: "Theme \<Rightarrow> icon" where
  "currentIcon resolvedTheme = (if resolvedTheme = Dark then Moon else Sun)"

definition ThemeToggle_ui_view :: "ThemeContextType \<Rightarrow> bool \<Rightarrow> view" where
  "ThemeToggle_ui_view context isOpen =
     \<lparr>button_icon = currentIcon (ctx_resolvedTheme context),
      button_onClick = [Call_setIsOpen (\<not> isOpen)],
      items =
        (if isOpen then
           map (\<lambda>option.
                  (let isSelected = (ctx_theme context = opt_value option)
                   in \<lparr>item_icon = opt_icon option, item_label = opt_label option,
                       item_selected = isSelected,
                       item_onClick = [Call_setTheme (opt_value option), Call_setIsOpen False]\<rparr>))
               themeOptions
         else [])\<rparr>"

definition ThemeToggle_ui :: "ThemeContextType option list \<Rightarrow> bool \<Rightarrow> error + view" where
  "ThemeToggle_ui providers isOpen =
     (case useTheme providers of
        Inl e \<Rightarrow> Inl e
      | Inr context \<Rightarrow> Inr (ThemeToggle_ui_view context isOpen))"

subsection \<open>\<^verbatim>\<open>unnamed/part_001\<close>\<close>

definition handleThemeChange :: "Theme \<Rightarrow> call list" where
  "handleThemeChange newTheme = [Call_setTheme newTheme, Call_setIsOpen False]"

fun getIcon :: "Theme \<Rightarrow> icon" where
  "getIcon Light = Sun"
| "getIcon Dark = Moon"
| "getIcon System = Monitor"

definition ThemeToggle_part_001_view :: "ThemeContextType \<Rightarrow> bool \<Rightarrow> view" where
  "ThemeToggle_part_001_view context isOpen =
     \<lparr>button_icon = getIcon (ctx_theme context),
      button_onClick = [Call_setIsOpen (\<not> isOpen)],
      items =
        (if isOpen then
           [\<lparr>item_icon = Sun, item_label = ''Light'',
             item_selected = (ctx_theme context = Light),
             item_onClick = handleThemeChange Light\<rparr>,
            \<lparr>item_icon = Moon, item_label = ''Dark'',
             item_selected = (ctx_theme context = Dark),
             item_onClick = handleThemeChange Dark\<rparr>,
            \<lparr>item_icon = Monitor, item_label = ''System'',
             item_selected = (ctx_theme context = System),
             item_onClick = handleThemeChange System\<rparr>]
         else [])\<rparr>"

definition ThemeToggle_part_001 :: "ThemeContextType option list \<Rightarrow> bool \<Rightarrow> error + view" where
  "ThemeToggle_part_001 providers isOpen =
     (case useTheme providers of
        Inl e \<Rightarrow> Inl e
      | Inr context \<Rightarrow> Inr (ThemeToggle_part_001_view context isOpen))"

subsection \<open>Running the calls of a handler\<close>

text \<open>
  \<open>run_call\<close> makes one call on the page and the picker's \<^verbatim>\<open>isOpen\<close>, the setter being
  the one of the context the picker was rendered with. \<open>dispatch\<close> runs the calls of a
  handler and then the renders of the provider they cause.
\<close>

fun run_call :: "ThemeContextType \<Rightarrow> call \<Rightarrow> page \<times> bool \<Rightarrow> page \<times> bool" where
  "run_call context (Call_setTheme t) (p, isOpen) = (ctx_setTheme context t p, isOpen)"
| "run_call context (Call_setIsOpen b) (p, isOpen) = (p, b)"

definition dispatch :: "ThemeContextType \<Rightarrow> call list \<Rightarrow> page \<times> bool \<Rightarrow> page \<times> bool" where
  "dispatch context calls s =
     (case fold (run_call context) calls s of (p, isOpen) \<Rightarrow> (settle p, isOpen))"

section \<open>Invariants of the provider\<close>

subsection \<open>What holds between commits\<close>

text \<open>
  \<open>consistent\<close> holds before and after every commit: the stored resolved theme is
  light or dark; before the first commit no handler is registered; afterwards exactly
  the handler of the last render is registered, the root carries the marker of the
  resolved theme that render saw and no other, and if the theme has not changed since
  that render, resolving again would store what is stored. \<open>settled\<close> adds that the
  last render saw the current state, so that no render is pending.
\<close>

definition consistent :: "page \<Rightarrow> bool" where
  "consistent p =
     (resolvedThemeState p \<noteq> System \<and>
      (case rendered p of
         None \<Rightarrow> changeListeners p = []
       | Some (theme0, resolvedTheme0) \<Rightarrow>
           changeListeners p = [theme0] \<and> resolvedTheme0 \<noteq> System \<and>
           (''light'' \<in> set (classList p)) = (resolvedTheme0 = Light) \<and>
           (''dark'' \<in> set (classList p)) = (resolvedTheme0 = Dark) \<and>
           (themeState p = theme0 \<longrightarrow>
              resolvedThemeState p = resolvedThemeState (updateResolvedTheme theme0 p))))"

definition settled :: "page \<Rightarrow> bool" where
  "settled p = (consistent p \<and> rendered p = Some (themeState p, resolvedThemeState p))"

lemmas effect_defs =
  restore_effect_def resolve_effect_def resolve_cleanup_def apply_effect_def
  updateResolvedTheme_def setResolvedTheme_def setThemeState_def getItem_def setItem_def
  classList_add_def classList_remove_def includes_str_def

lemma apply_effect_markers:
  "r \<noteq> System \<Longrightarrow>
   (''light'' \<in> set (classList (apply_effect r p))) = (r = Light) \<and>
   (''dark'' \<in> set (classList (apply_effect r p))) = (r = Dark)"
  by (cases r) (auto simp: apply_effect_def classList_add_def classList_remove_def)

lemma consistent_commit: "consistent p \<Longrightarrow> consistent (commit p)"
  apply (cases "rendered p")
  subgoal
  apply (cases "resolvedThemeState p")
  apply (auto simp: consistent_def commit_def Let_def effect_defs as_Theme_def split: option.splits if_splits)
  done
  subgoal for a
  apply (cases a)
  apply (cases "resolvedThemeState p"; cases "themeState p")
  apply (auto simp: consistent_def commit_def Let_def effect_defs split: option.splits if_splits)
  done
  done

lemma commit_rendered: "rendered (commit p) = Some (themeState p, resolvedThemeState p)"
  by (simp add: commit_def Let_def)

lemma settle_settled: "consistent p \<Longrightarrow> settled (settle p)"
proof (induction p rule: settle.induct)
  case (1 p)
  show ?case
  proof (cases "state_changed p (commit p)")
    case True
    with 1 show ?thesis by (simp add: settle.simps [of p] consistent_commit)
  next
    case False
    then have "rendered (commit p) = Some (themeState (commit p), resolvedThemeState (commit p))"
      by (simp add: commit_rendered state_changed_def)
    with False 1 show ?thesis
      by (simp add: settle.simps [of p] settled_def consistent_commit)
  qed
qed

lemma consistent_init: "consistent (ThemeProvider_init (p\<lparr>changeListeners := []\<rparr>))"
  by (simp add: consistent_def ThemeProvider_init_def)

lemma consistent_setTheme: "settled p \<Longrightarrow> consistent (setTheme t p)"
  by (cases "themeState p")
    (auto simp: settled_def consistent_def setTheme_def effect_defs split: if_splits)

lemma consistent_os_change: "settled p \<Longrightarrow> consistent (os_change d p)"
  by (cases "themeState p")
    (auto simp: settled_def consistent_def os_change_def handler_def Let_def effect_defs
      split: if_splits)

lemma reachable_settled: "reachable p \<Longrightarrow> settled p"
proof (induction rule: reachable.induct)
  case (reachable_mount p)
  show ?case by (simp add: mount_def settle_settled consistent_init)
next
  case (reachable_step p e)
  then show ?case
    by (cases e) (simp_all add: settle_settled consistent_setTheme consistent_os_change)
qed

subsection \<open>What a commit and the renders after it leave alone\<close>

lemma commit_settled: "rendered p = Some (themeState p, resolvedThemeState p) \<Longrightarrow> commit p = p"
  by (simp add: commit_def Let_def)

lemma settle_settled_id: "rendered p = Some (themeState p, resolvedThemeState p) \<Longrightarrow> settle p = p"
  by (simp add: settle.simps [of p] commit_settled state_changed_def)

lemma commit_themeState:
  "themeState (commit p) =
     (case rendered p of None \<Rightarrow> themeState (restore_effect p) | Some r \<Rightarrow> themeState p)"
  by (auto simp: commit_def Let_def effect_defs split: option.splits if_splits)

lemma commit_unchanged:
  "localStorage (commit p) = localStorage p \<and> prefersDark (commit p) = prefersDark p"
  by (auto simp: commit_def Let_def effect_defs split: option.splits if_splits)

lemma settle_unchanged:
  "localStorage (settle p) = localStorage p \<and> prefersDark (settle p) = prefersDark p"
proof (induction p rule: settle.induct)
  case (1 p)
  then show ?case
    by (cases "state_changed p (commit p)") (simp_all add: settle.simps [of p] commit_unchanged)
qed

lemma settle_rendered:
  "rendered (settle p) = Some (themeState (settle p), resolvedThemeState (settle p))"
proof (induction p rule: settle.induct)
  case (1 p)
  then show ?case
    by (cases "state_changed p (commit p)")
      (simp_all add: settle.simps [of p] commit_rendered state_changed_def)
qed

lemma settle_themeState_rendered:
  "rendered p \<noteq> None \<Longrightarrow> themeState (settle p) = themeState p"
proof (induction p rule: settle.induct)
  case (1 p)
  then show ?case
    by (cases "state_changed p (commit p)")
      (auto simp: settle.simps [of p] commit_themeState commit_rendered)
qed

lemma settle_themeState: "themeState (settle p) = themeState (commit p)"
  by (cases "state_changed p (commit p)")
    (simp_all add: settle.simps [of p] settle_themeState_rendered commit_rendered)

lemma restore_effect_themeState:
  "themeState (restore_effect p) =
     (case localStorage p ''theme'' of
        None \<Rightarrow> themeState p
      | Some v \<Rightarrow> (case as_Theme v of None \<Rightarrow> themeState p | Some t \<Rightarrow> t))"
  by (auto simp: restore_effect_def getItem_def setThemeState_def as_Theme_def
      includes_str_def split: option.splits)

lemma as_Theme_theme_str: "as_Theme (theme_str t) = Some t"
  by (cases t) (simp_all add: as_Theme_def)

lemma as_Theme_None: "(\<forall>t. v \<noteq> theme_str t) \<Longrightarrow> as_Theme v = None"
proof -
  assume h: "\<forall>t. v \<noteq> theme_str t"
  from h [rule_format, of Light] h [rule_format, of Dark] h [rule_format, of System]
  show ?thesis by (simp add: as_Theme_def)
qed

lemma mount_themeState:
  "themeState (mount p) = themeState (restore_effect (ThemeProvider_init p))"
  by (simp add: mount_def settle_themeState commit_themeState ThemeProvider_init_def
      restore_effect_themeState split: option.splits)

lemma settled_resolved:
  "settled p \<Longrightarrow>
   resolvedThemeState p =
     (case themeState p of Light \<Rightarrow> Light | Dark \<Rightarrow> Dark
      | System \<Rightarrow> (if prefersDark p then Dark else Light))"
  by (cases "themeState p")
    (auto simp: settled_def consistent_def updateResolvedTheme_def setResolvedTheme_def)

subsection \<open>The markers on the document root\<close>

text \<open>Exactly one of the class names \<open>light\<close> and \<open>dark\<close> is in a class list.\<close>

definition one_marker :: "string list \<Rightarrow> bool" where
  "one_marker cl = ((''light'' \<in> set cl) \<noteq> (''dark'' \<in> set cl))"

lemma commit_one_marker:
  "resolvedThemeState p \<noteq> System \<Longrightarrow> rendered p = None \<or> one_marker (classList p) \<Longrightarrow>
   one_marker (classList (commit p))"
  by (cases "resolvedThemeState p")
    (auto simp: one_marker_def commit_def Let_def effect_defs split: option.splits if_splits)

lemma settled_marker:
  "settled p \<Longrightarrow>
   (''light'' \<in> set (classList p)) = (resolvedThemeState p = Light) \<and>
   (''dark'' \<in> set (classList p)) = (resolvedThemeState p = Dark)"
  unfolding settled_def consistent_def by (cases "rendered p") auto

subsection \<open>Settled pages and the first commit\<close>

lemma settled_listeners: "settled p \<Longrightarrow> changeListeners p = [themeState p]"
  unfolding settled_def consistent_def by (cases "rendered p") auto

lemma settled_rendered: "settled p \<Longrightarrow> rendered p = Some (themeState p, resolvedThemeState p)"
  by (simp add: settled_def)

lemma os_change_settled:
  "settled p \<Longrightarrow> os_change d p = handler (themeState p) (p\<lparr>prefersDark := d\<rparr>)"
  by (simp add: os_change_def Let_def settled_listeners)

lemma first_commit:
  "rendered (commit (ThemeProvider_init p)) = Some (System, Light)
   \<and> ''light'' \<in> set (classList (commit (ThemeProvider_init p)))
   \<and> ''dark'' \<notin> set (classList (commit (ThemeProvider_init p)))"
  by (auto simp: commit_def Let_def ThemeProvider_init_def effect_defs split: option.splits)

section \<open>An example page\<close>

text \<open>
  A page with nothing stored, no class on the root and a light operating system, on which
  no provider has rendered. The examples below vary it.
\<close>

definition blank_page :: page where
  "blank_page =
     \<lparr>themeState = System, resolvedThemeState = Light, rendered = None,
      localStorage = Map.empty, classList = [], prefersDark = False,
      changeListeners = []\<rparr>"

section \<open>The claims\<close>

text \<open>
  C1. For every theme value \<open>t\<close>, resolution stores \<open>t\<close> itself when \<open>t\<close> is light or
  dark, whatever the operating system reports, and for \<open>system\<close> stores dark when the
  dark-mode query answers true and light when it answers false; the stored value is
  never \<open>system\<close>. The same holds of the resolved theme of every page reached by
  mounting the provider and then setting themes and changing the operating system's
  appearance in any order.
\<close>

theorem updateResolvedTheme_resolves:
  "resolvedThemeState (updateResolvedTheme t p) =
     (case t of Light \<Rightarrow> Light | Dark \<Rightarrow> Dark
      | System \<Rightarrow> (if prefersDark p then Dark else Light))
   \<and> resolvedThemeState (updateResolvedTheme t p) \<noteq> System
   \<and> (reachable p \<longrightarrow>
        resolvedThemeState p =
          (case themeState p of Light \<Rightarrow> Light | Dark \<Rightarrow> Dark
           | System \<Rightarrow> (if prefersDark p then Dark else Light))
        \<and> resolvedThemeState p \<noteq> System)"
proof -
  have "resolvedThemeState (updateResolvedTheme t p) =
     (case t of Light \<Rightarrow> Light | Dark \<Rightarrow> Dark
      | System \<Rightarrow> (if prefersDark p then Dark else Light))"
    by (cases t) (simp_all add: updateResolvedTheme_def setResolvedTheme_def)
  moreover have "resolvedThemeState (updateResolvedTheme t p) \<noteq> System"
    by (cases t) (simp_all add: updateResolvedTheme_def setResolvedTheme_def)
  moreover have "resolvedThemeState p =
          (case themeState p of Light \<Rightarrow> Light | Dark \<Rightarrow> Dark
           | System \<Rightarrow> (if prefersDark p then Dark else Light))
        \<and> resolvedThemeState p \<noteq> System" if "reachable p"
  proof -
    from that have s: "settled p" by (rule reachable_settled)
    then have "resolvedThemeState p \<noteq> System"
      unfolding settled_def consistent_def by blast
    with settled_resolved [OF s] show ?thesis by (rule conjI)
  qed
  ultimately show ?thesis by blast
qed

text \<open>
  An instance: mounted under a dark operating system, then set to light, the store
  resolves to light.
\<close>

theorem updateResolvedTheme_resolves_witness:
  "reachable (step (Set_theme Light) (mount (blank_page\<lparr>prefersDark := True\<rparr>)))
   \<and> resolvedThemeState (step (Set_theme Light) (mount (blank_page\<lparr>prefersDark := True\<rparr>)))
       = Light"
proof -
  let ?p = "step (Set_theme Light) (mount (blank_page\<lparr>prefersDark := True\<rparr>))"
  have r: "reachable ?p"
    by (rule reachable_step [OF reachable_mount])
  have e: "themeState ?p = Light"
    by (simp add: settle_themeState_rendered setTheme_def setItem_def setThemeState_def
        mount_def settle_rendered)
  from updateResolvedTheme_resolves [of System ?p] r e show ?thesis
    by simp
qed

text \<open>
  C2. For every persisted string \<open>v\<close>, initialisation from storage gives the theme \<open>v\<close>
  when \<open>v\<close> is the string of one of the three members, and the default \<open>system\<close> when
  nothing is persisted or \<open>v\<close> is any other string. This is stated of the restore effect
  run on a fresh provider and of the mounted provider once its renders have settled.
\<close>

theorem restore_saved_theme:
  "(\<forall>t. localStorage p ''theme'' = Some (theme_str t) \<longrightarrow>
        themeState (restore_effect (ThemeProvider_init p)) = t \<and> themeState (mount p) = t)
   \<and> ((\<forall>t. localStorage p ''theme'' \<noteq> Some (theme_str t)) \<longrightarrow>
        themeState (restore_effect (ThemeProvider_init p)) = System
        \<and> themeState (mount p) = System)"
proof -
  have init: "localStorage (ThemeProvider_init p) = localStorage p"
    "themeState (ThemeProvider_init p) = System"
    by (simp_all add: ThemeProvider_init_def)
  have "themeState (restore_effect (ThemeProvider_init p)) = t"
    if "localStorage p ''theme'' = Some (theme_str t)" for t
    using that by (simp add: restore_effect_themeState init as_Theme_theme_str)
  moreover have "themeState (restore_effect (ThemeProvider_init p)) = System"
    if h: "\<forall>t. localStorage p ''theme'' \<noteq> Some (theme_str t)"
  proof (cases "localStorage p ''theme''")
    case None
    then show ?thesis by (simp add: restore_effect_themeState init)
  next
    case (Some v)
    with h have "\<forall>t. v \<noteq> theme_str t" by simp
    then have "as_Theme v = None" by (rule as_Theme_None)
    with Some show ?thesis by (simp add: restore_effect_themeState init)
  qed
  ultimately show ?thesis by (simp add: mount_themeState)
qed

text \<open>Instances: a stored \<open>dark\<close>, a stored \<open>blue\<close>, and nothing stored.\<close>

theorem restore_saved_theme_witness:
  "themeState (mount (blank_page\<lparr>localStorage := [''theme'' \<mapsto> ''dark'']\<rparr>)) = Dark
   \<and> themeState (mount (blank_page\<lparr>localStorage := [''theme'' \<mapsto> ''blue'']\<rparr>)) = System
   \<and> themeState (mount blank_page) = System"
proof -
  have a: "localStorage (blank_page\<lparr>localStorage := [''theme'' \<mapsto> ''dark'']\<rparr>) ''theme''
      = Some (theme_str Dark)"
    by simp
  have b: "\<forall>t. localStorage (blank_page\<lparr>localStorage := [''theme'' \<mapsto> ''blue'']\<rparr>) ''theme''
      \<noteq> Some (theme_str t)"
  proof
    fix t show "localStorage (blank_page\<lparr>localStorage := [''theme'' \<mapsto> ''blue'']\<rparr>) ''theme''
      \<noteq> Some (theme_str t)" by (cases t) simp_all
  qed
  have c: "\<forall>t. localStorage blank_page ''theme'' \<noteq> Some (theme_str t)"
    by (simp add: blank_page_def)
  from restore_saved_theme
      [of "blank_page\<lparr>localStorage := [''theme'' \<mapsto> ''dark'']\<rparr>",
        THEN conjunct1, rule_format, OF a]
  have 1: "themeState (mount (blank_page\<lparr>localStorage := [''theme'' \<mapsto> ''dark'']\<rparr>)) = Dark"
    by simp
  from restore_saved_theme
      [of "blank_page\<lparr>localStorage := [''theme'' \<mapsto> ''blue'']\<rparr>",
        THEN conjunct2, THEN mp, OF b]
  have 2: "themeState (mount (blank_page\<lparr>localStorage := [''theme'' \<mapsto> ''blue'']\<rparr>)) = System"
    by simp
  from restore_saved_theme [of blank_page, THEN conjunct2, THEN mp, OF c]
  have 3: "themeState (mount blank_page) = System"
    by simp
  from 1 2 3 show ?thesis by simp
qed

text \<open>
  C3. After every resolution the class list of the document root holds exactly one of
  the markers \<open>light\<close> and \<open>dark\<close>, never both and never neither: the apply effect
  removes both and adds the one of the resolved theme it was rendered with; every commit
  of the provider, the first one included, leaves exactly one marker; and on every page
  reached by mounting and then setting themes and changing the operating system's
  appearance, the marker present is the one of the current resolved theme.
\<close>

theorem one_marker_on_root:
  "(r \<noteq> System \<longrightarrow>
      ((''light'' \<in> set (classList (apply_effect r q))) = (r = Light)) \<and>
      ((''dark'' \<in> set (classList (apply_effect r q))) = (r = Dark)))
   \<and> (resolvedThemeState p \<noteq> System \<and> (rendered p = None \<or> one_marker (classList p)) \<longrightarrow>
        one_marker (classList (commit p)))
   \<and> (reachable p \<longrightarrow>
        one_marker (classList p) \<and> theme_str (resolvedThemeState p) \<in> set (classList p))"
proof -
  have "one_marker (classList p) \<and> theme_str (resolvedThemeState p) \<in> set (classList p)"
    if "reachable p"
  proof -
    from that have s: "settled p" by (rule reachable_settled)
    then have n: "resolvedThemeState p \<noteq> System"
      unfolding settled_def consistent_def by blast
    from settled_marker [OF s] n show ?thesis
      by (cases "resolvedThemeState p") (simp_all add: one_marker_def)
  qed
  with apply_effect_markers [of r q] commit_one_marker [of p] show ?thesis
    by blast
qed

text \<open>
  An instance: a root that starts with both markers, a stored \<open>light\<close> and a dark
  operating system.
\<close>

theorem one_marker_on_root_witness:
  "one_marker (classList (mount (blank_page
      \<lparr>localStorage := [''theme'' \<mapsto> ''light''], classList := [''dark'', ''x'', ''light''],
       prefersDark := True\<rparr>)))
   \<and> classList (apply_effect Dark (blank_page\<lparr>classList := [''dark'', ''x'', ''light'']\<rparr>))
       = [''x'', ''dark'']
   \<and> one_marker (classList (commit blank_page))"
proof -
  let ?p = "blank_page
      \<lparr>localStorage := [''theme'' \<mapsto> ''light''], classList := [''dark'', ''x'', ''light''],
       prefersDark := True\<rparr>"
  have 1: "one_marker (classList (mount ?p))"
    using one_marker_on_root [of Dark blank_page "mount ?p"] reachable_mount [of ?p] by blast
  have 2: "classList (apply_effect Dark (blank_page\<lparr>classList := [''dark'', ''x'', ''light'']\<rparr>))
       = [''x'', ''dark'']"
    by (simp add: apply_effect_def classList_add_def classList_remove_def)
  have "resolvedThemeState blank_page \<noteq> System" "rendered blank_page = None"
    by (simp_all add: blank_page_def)
  with one_marker_on_root [of Dark blank_page blank_page]
  have 3: "one_marker (classList (commit blank_page))"
    by blast
  from 1 2 3 show ?thesis by simp
qed

text \<open>
  C4. The \<^verbatim>\<open>change\<close> handler resolves again when the theme it was rendered with is
  \<open>system\<close> and does nothing when it is light or dark. On every reachable page, a
  notification that the operating system's appearance changed makes the resolved theme
  follow the new appearance when the theme is \<open>system\<close>, and changes nothing of the store
  when the theme is light or dark: the page is the same but for what the media query
  answers.
\<close>

theorem os_change_only_in_system:
  "resolvedThemeState (handler System q) = (if prefersDark q then Dark else Light)
   \<and> handler Light q = q \<and> handler Dark q = q
   \<and> (reachable p \<longrightarrow>
        (themeState p = System \<longrightarrow>
           resolvedThemeState (step (Os_change d) p) = (if d then Dark else Light)
           \<and> themeState (step (Os_change d) p) = System
           \<and> localStorage (step (Os_change d) p) = localStorage p)
        \<and> (themeState p \<noteq> System \<longrightarrow> step (Os_change d) p = p\<lparr>prefersDark := d\<rparr>))"
proof -
  have h: "resolvedThemeState (handler System q) = (if prefersDark q then Dark else Light)"
    "handler Light q = q" "handler Dark q = q"
    by (simp_all add: handler_def updateResolvedTheme_def setResolvedTheme_def)
  have sys: "resolvedThemeState (step (Os_change d) p) = (if d then Dark else Light)
           \<and> themeState (step (Os_change d) p) = System
           \<and> localStorage (step (Os_change d) p) = localStorage p"
    if s: "settled p" and t: "themeState p = System"
  proof -
    let ?q = "os_change d p"
    have q: "?q = p\<lparr>prefersDark := d, resolvedThemeState := (if d then Dark else Light)\<rparr>"
      by (simp add: os_change_settled [OF s] t handler_def updateResolvedTheme_def
          setResolvedTheme_def)
    have r: "rendered ?q \<noteq> None" using settled_rendered [OF s] by (simp add: q)
    have 1: "themeState (settle ?q) = System"
      using settle_themeState_rendered [OF r] t by (simp add: q)
    have 2: "prefersDark (settle ?q) = d" and 3: "localStorage (settle ?q) = localStorage p"
      using settle_unchanged [of ?q] by (simp_all add: q)
    have "settled (settle ?q)"
      by (rule settle_settled [OF consistent_os_change [OF s]])
    from settled_resolved [OF this] 1 2 3 show ?thesis by simp
  qed
  have other: "step (Os_change d) p = p\<lparr>prefersDark := d\<rparr>"
    if s: "settled p" and t: "themeState p \<noteq> System"
  proof -
    have q: "os_change d p = p\<lparr>prefersDark := d\<rparr>"
      using t by (simp add: os_change_settled [OF s] handler_def)
    have "rendered (p\<lparr>prefersDark := d\<rparr>) =
        Some (themeState (p\<lparr>prefersDark := d\<rparr>), resolvedThemeState (p\<lparr>prefersDark := d\<rparr>))"
      using settled_rendered [OF s] by simp
    then have "settle (p\<lparr>prefersDark := d\<rparr>) = p\<lparr>prefersDark := d\<rparr>"
      by (rule settle_settled_id)
    with q show ?thesis by simp
  qed
  from h sys other reachable_settled [of p] show ?thesis by blast
qed

text \<open>
  Instances: a provider mounted with nothing stored follows the system going dark; one
  mounted with a stored \<open>light\<close> does not.
\<close>

theorem os_change_only_in_system_witness:
  "resolvedThemeState (step (Os_change True) (mount blank_page)) = Dark
   \<and> step (Os_change True) (mount (blank_page\<lparr>localStorage := [''theme'' \<mapsto> ''light'']\<rparr>))
       = (mount (blank_page\<lparr>localStorage := [''theme'' \<mapsto> ''light'']\<rparr>))\<lparr>prefersDark := True\<rparr>"
proof -
  let ?l = "blank_page\<lparr>localStorage := [''theme'' \<mapsto> ''light'']\<rparr>"
  have a: "themeState (mount blank_page) = System"
    by (simp add: mount_themeState restore_effect_themeState ThemeProvider_init_def
        blank_page_def)
  have b: "themeState (mount ?l) \<noteq> System"
    by (simp add: mount_themeState restore_effect_themeState ThemeProvider_init_def
        as_Theme_def)
  from os_change_only_in_system [of blank_page "mount blank_page" True]
    reachable_mount [of blank_page] a
  have 1: "resolvedThemeState (step (Os_change True) (mount blank_page)) = Dark"
    by simp
  from os_change_only_in_system [of blank_page "mount ?l" True] reachable_mount [of ?l] b
  have 2: "step (Os_change True) (mount ?l) = (mount ?l)\<lparr>prefersDark := True\<rparr>"
    by blast
  from 1 2 show ?thesis by simp
qed

text \<open>
  C5. For every theme value \<open>t\<close>, the setter puts \<open>t\<close> into the theme state and, in the same
  call, writes the string of \<open>t\<close> under the storage key \<open>theme\<close>, leaving every other key
  as it was; the string written is one the restore effect accepts, so that a provider
  started on the page afterwards restores \<open>t\<close>. The setter touches neither the resolved
  theme nor the class list.
\<close>

theorem setTheme_persists:
  "themeState (setTheme t p) = t
   \<and> localStorage (setTheme t p) = (localStorage p)(''theme'' \<mapsto> theme_str t)
   \<and> getItem ''theme'' (setTheme t p) = Some (theme_str t)
   \<and> includes_str [''light'', ''dark'', ''system''] (theme_str t)
   \<and> themeState (restore_effect (ThemeProvider_init (setTheme t p))) = t
   \<and> resolvedThemeState (setTheme t p) = resolvedThemeState p
   \<and> classList (setTheme t p) = classList p"
  by (cases t)
    (simp_all add: setTheme_def setItem_def setThemeState_def getItem_def includes_str_def
      restore_effect_def ThemeProvider_init_def as_Theme_def)

text \<open>
  C6. For every option of the picker's list, in both pickers, a click on the option
  while the list is open calls the setter of the store with exactly the value of that
  option and then sets \<^verbatim>\<open>isOpen\<close> to false; a closed list offers no option. Run on a
  page, the two calls are the store's \<open>Set_theme\<close> step and leave the list closed, with the
  string of the value under the storage key \<open>theme\<close>.
\<close>

theorem select_option_sets_and_closes:
  "map item_onClick (items (ThemeToggle_ui_view context True))
     = map (\<lambda>option. [Call_setTheme (opt_value option), Call_setIsOpen False]) themeOptions
   \<and> map (\<lambda>i. (item_label i, item_onClick i)) (items (ThemeToggle_ui_view context True))
     = [(''Light'', [Call_setTheme Light, Call_setIsOpen False]),
        (''Dark'', [Call_setTheme Dark, Call_setIsOpen False]),
        (''System'', [Call_setTheme System, Call_setIsOpen False])]
   \<and> map (\<lambda>i. (item_label i, item_onClick i)) (items (ThemeToggle_part_001_view context True))
     = [(''Light'', [Call_setTheme Light, Call_setIsOpen False]),
        (''Dark'', [Call_setTheme Dark, Call_setIsOpen False]),
        (''System'', [Call_setTheme System, Call_setIsOpen False])]
   \<and> items (ThemeToggle_ui_view context False) = []
   \<and> items (ThemeToggle_part_001_view context False) = []
   \<and> fold (run_call context) [Call_setTheme v, Call_setIsOpen False] (p, True)
     = (ctx_setTheme context v p, False)
   \<and> dispatch (ThemeProvider_value p) [Call_setTheme v, Call_setIsOpen False] (p, True)
     = (step (Set_theme v) p, False)
   \<and> localStorage (step (Set_theme v) p) ''theme'' = Some (theme_str v)"
  by (simp add: ThemeToggle_ui_view_def ThemeToggle_part_001_view_def themeOptions_def
      handleThemeChange_def dispatch_def ThemeProvider_value_def settle_unchanged
      setTheme_def setItem_def setThemeState_def)

text \<open>
  C7. For every pointer-down event, with the ref attached to the control's outermost
  element: if the target is not inside that element's subtree the handler sets
  \<^verbatim>\<open>isOpen\<close> to false, so an open list is closed; if the target is inside, the handler
  calls nothing, so an open list stays open. The page is not touched, and a closed list
  stays closed. With no element attached the handler calls nothing.
\<close>

theorem click_outside_closes:
  "handleClickOutside (Some el) target
     = (if contains el target then [] else [Call_setIsOpen False])
   \<and> fold (run_call context) (handleClickOutside (Some el) target) (p, True)
     = (p, contains el target)
   \<and> fold (run_call context) (handleClickOutside (Some el) target) (p, False) = (p, False)
   \<and> handleClickOutside None target = []"
  by (simp add: handleClickOutside_def)

text \<open>
  Instances on a small tree, the element 1 with children 2 and 3 and grandchild 4: a
  press on 4 leaves the list open, a press on 9 closes it.
\<close>

theorem click_outside_closes_witness:
  "fold (run_call (ThemeProvider_value blank_page))
      (handleClickOutside (Some (Node 1 [Node 2 [], Node 3 [Node 4 []]])) 4) (blank_page, True)
     = (blank_page, True)
   \<and> fold (run_call (ThemeProvider_value blank_page))
      (handleClickOutside (Some (Node 1 [Node 2 [], Node 3 [Node 4 []]])) 9) (blank_page, True)
     = (blank_page, False)"
  using click_outside_closes
    [of "Node 1 [Node 2 [], Node 3 [Node 4 []]]" 4 "ThemeProvider_value blank_page" blank_page]
    click_outside_closes
    [of "Node 1 [Node 2 [], Node 3 [Node 4 []]]" 9 "ThemeProvider_value blank_page" blank_page]
  by simp

text \<open>
  C8. \<^verbatim>\<open>useTheme\<close> where no \<^verbatim>\<open>ThemeProvider\<close> encloses the caller, that is, where the
  context value is undefined, throws the error with the message
  \<open>useTheme must be used within a ThemeProvider\<close>; inside a provider it returns the
  provider's value and does not throw. Both pickers call it first and throw with it.
\<close>

theorem useTheme_outside_provider:
  "useTheme [] = Inl (Error ''useTheme must be used within a ThemeProvider'')
   \<and> useTheme (None # outer) = Inl (Error ''useTheme must be used within a ThemeProvider'')
   \<and> useTheme (Some c # outer) = Inr c
   \<and> useTheme (Some (ThemeProvider_value p) # outer) = Inr (ThemeProvider_value p)
   \<and> ThemeToggle_ui [] isOpen = Inl (Error ''useTheme must be used within a ThemeProvider'')
   \<and> ThemeToggle_part_001 [] isOpen
       = Inl (Error ''useTheme must be used within a ThemeProvider'')"
  by (simp add: useTheme_def ThemeToggle_ui_def ThemeToggle_part_001_def)

text \<open>
  C9, as claimed: for every store state the toggle button shows the icon of the current
  resolved theme, not of the raw theme. The picker of \<^verbatim>\<open>unnamed/part_001\<close> does not:
  mounted with nothing stored under a dark operating system, the theme is \<open>system\<close> and
  the resolved theme is dark, and its button shows the monitor, the icon of the raw theme,
  where the icon of the resolved theme is the moon.
\<close>

theorem toggle_icon_counterexample:
  "ctx_theme (ThemeProvider_value (mount (blank_page\<lparr>prefersDark := True\<rparr>))) = System
   \<and> ctx_resolvedTheme (ThemeProvider_value (mount (blank_page\<lparr>prefersDark := True\<rparr>))) = Dark
   \<and> button_icon (ThemeToggle_part_001_view
         (ThemeProvider_value (mount (blank_page\<lparr>prefersDark := True\<rparr>))) False) = Monitor
   \<and> button_icon (ThemeToggle_part_001_view
         (ThemeProvider_value (mount (blank_page\<lparr>prefersDark := True\<rparr>))) False)
       \<noteq> getIcon (ctx_resolvedTheme
           (ThemeProvider_value (mount (blank_page\<lparr>prefersDark := True\<rparr>))))
   \<and> button_icon (ThemeToggle_part_001_view
         (ThemeProvider_value (mount (blank_page\<lparr>prefersDark := True\<rparr>))) False)
       \<noteq> currentIcon (ctx_resolvedTheme
           (ThemeProvider_value (mount (blank_page\<lparr>prefersDark := True\<rparr>))))"
  by (simp add: mount_def blank_page_def ThemeProvider_init_def settle.simps commit_def
      state_changed_def effect_defs Let_def ThemeProvider_value_def
      ThemeToggle_part_001_view_def currentIcon_def)

text \<open>
  C9, amended: the picker of \<^verbatim>\<open>src/components/ui/ThemeToggle.tsx\<close> shows the icon of the
  resolved theme, the moon for dark and the sun for light, whatever the raw theme is. The
  picker of \<^verbatim>\<open>unnamed/part_001\<close> shows the icon of the raw theme: sun, moon, or the
  monitor for \<open>system\<close>. On every reachable page the two buttons show the same icon
  exactly when the theme is light or dark.
\<close>

theorem toggle_icon:
  "button_icon (ThemeToggle_ui_view context isOpen)
     = (if ctx_resolvedTheme context = Dark then Moon else Sun)
   \<and> button_icon (ThemeToggle_part_001_view context isOpen)
     = (case ctx_theme context of Light \<Rightarrow> Sun | Dark \<Rightarrow> Moon | System \<Rightarrow> Monitor)
   \<and> (reachable p \<longrightarrow>
        (button_icon (ThemeToggle_part_001_view (ThemeProvider_value p) isOpen)
           = button_icon (ThemeToggle_ui_view (ThemeProvider_value p) isOpen))
        = (themeState p \<noteq> System))"
proof -
  have 1: "button_icon (ThemeToggle_ui_view context isOpen)
     = (if ctx_resolvedTheme context = Dark then Moon else Sun)"
    by (simp add: ThemeToggle_ui_view_def currentIcon_def)
  have 2: "button_icon (ThemeToggle_part_001_view context isOpen)
     = (case ctx_theme context of Light \<Rightarrow> Sun | Dark \<Rightarrow> Moon | System \<Rightarrow> Monitor)"
    by (cases "ctx_theme context") (simp_all add: ThemeToggle_part_001_view_def)
  have 3: "(button_icon (ThemeToggle_part_001_view (ThemeProvider_value p) isOpen)
           = button_icon (ThemeToggle_ui_view (ThemeProvider_value p) isOpen))
        = (themeState p \<noteq> System)" if "reachable p"
  proof -
    from that have "settled p" by (rule reachable_settled)
    from settled_resolved [OF this] show ?thesis
      by (cases "themeState p")
        (simp_all add: ThemeToggle_part_001_view_def ThemeToggle_ui_view_def
          ThemeProvider_value_def currentIcon_def)
  qed
  from 1 2 3 show ?thesis by blast
qed

text \<open>
  Instances: with \<open>dark\<close> stored both buttons show the moon; with nothing stored they
  differ.
\<close>

theorem toggle_icon_witness:
  "button_icon (ThemeToggle_part_001_view
       (ThemeProvider_value (mount (blank_page\<lparr>localStorage := [''theme'' \<mapsto> ''dark'']\<rparr>)))
       False)
     = button_icon (ThemeToggle_ui_view
       (ThemeProvider_value (mount (blank_page\<lparr>localStorage := [''theme'' \<mapsto> ''dark'']\<rparr>)))
       False)
   \<and> button_icon (ThemeToggle_part_001_view (ThemeProvider_value (mount blank_page)) False)
     \<noteq> button_icon (ThemeToggle_ui_view (ThemeProvider_value (mount blank_page)) False)"
proof -
  let ?d = "blank_page\<lparr>localStorage := [''theme'' \<mapsto> ''dark'']\<rparr>"
  have a: "themeState (mount ?d) \<noteq> System"
    by (simp add: mount_themeState restore_effect_themeState ThemeProvider_init_def
        as_Theme_def)
  have b: "themeState (mount blank_page) = System"
    by (simp add: mount_themeState restore_effect_themeState ThemeProvider_init_def
        blank_page_def)
  from toggle_icon [of _ False "mount ?d"] reachable_mount [of ?d] a
  have 1: "button_icon (ThemeToggle_part_001_view (ThemeProvider_value (mount ?d)) False)
     = button_icon (ThemeToggle_ui_view (ThemeProvider_value (mount ?d)) False)"
    by blast
  from toggle_icon [of _ False "mount blank_page"] reachable_mount [of blank_page] b
  have 2: "button_icon (ThemeToggle_part_001_view (ThemeProvider_value (mount blank_page)) False)
     \<noteq> button_icon (ThemeToggle_ui_view (ThemeProvider_value (mount blank_page)) False)"
    by blast
  from 1 2 show ?thesis by simp
qed

text \<open>
  C10. Before the restore effect runs, the provider's state is theme \<open>system\<close> and
  resolved theme \<open>light\<close>, whatever is persisted: these are the values the first render
  sees, and the first commit puts the marker \<open>light\<close> on the root. A persisted \<open>dark\<close>
  takes effect only with the restore effect of that commit; once the renders it causes
  have settled, theme and resolved theme are both dark and the root carries \<open>dark\<close>.
\<close>

theorem initial_state_before_restore:
  "themeState (ThemeProvider_init p) = System
   \<and> resolvedThemeState (ThemeProvider_init p) = Light
   \<and> rendered (commit (ThemeProvider_init p)) = Some (System, Light)
   \<and> ''light'' \<in> set (classList (commit (ThemeProvider_init p)))
   \<and> ''dark'' \<notin> set (classList (commit (ThemeProvider_init p)))
   \<and> (localStorage p ''theme'' = Some ''dark'' \<longrightarrow>
        themeState (commit (ThemeProvider_init p)) = Dark
        \<and> themeState (mount p) = Dark \<and> resolvedThemeState (mount p) = Dark
        \<and> ''dark'' \<in> set (classList (mount p)) \<and> ''light'' \<notin> set (classList (mount p)))"
proof -
  have i: "themeState (ThemeProvider_init p) = System"
    "resolvedThemeState (ThemeProvider_init p) = Light"
    by (simp_all add: ThemeProvider_init_def)
  have d: "themeState (commit (ThemeProvider_init p)) = Dark
        \<and> themeState (mount p) = Dark \<and> resolvedThemeState (mount p) = Dark
        \<and> ''dark'' \<in> set (classList (mount p)) \<and> ''light'' \<notin> set (classList (mount p))"
    if "localStorage p ''theme'' = Some ''dark''"
  proof -
    from that have 1: "themeState (restore_effect (ThemeProvider_init p)) = Dark"
      by (simp add: restore_effect_themeState ThemeProvider_init_def as_Theme_def)
    then have 2: "themeState (commit (ThemeProvider_init p)) = Dark"
      by (simp add: commit_themeState ThemeProvider_init_def)
    from 1 have 3: "themeState (mount p) = Dark" by (simp add: mount_themeState)
    have s: "settled (mount p)" by (rule reachable_settled [OF reachable_mount])
    from settled_resolved [OF s] 3 have 4: "resolvedThemeState (mount p) = Dark" by simp
    from settled_marker [OF s] 2 3 4 show ?thesis by simp
  qed
  from i first_commit [of p] d show ?thesis by blast
qed

text \<open>An instance: the page with \<open>dark\<close> persisted.\<close>

theorem initial_state_before_restore_witness:
  "resolvedThemeState
     (ThemeProvider_init (blank_page\<lparr>localStorage := [''theme'' \<mapsto> ''dark'']\<rparr>)) = Light
   \<and> rendered (commit
     (ThemeProvider_init (blank_page\<lparr>localStorage := [''theme'' \<mapsto> ''dark'']\<rparr>)))
       = Some (System, Light)
   \<and> resolvedThemeState (mount (blank_page\<lparr>localStorage := [''theme'' \<mapsto> ''dark'']\<rparr>))
       = Dark"
proof -
  have "localStorage (blank_page\<lparr>localStorage := [''theme'' \<mapsto> ''dark'']\<rparr>) ''theme''
      = Some ''dark''"
    by simp
  with initial_state_before_restore
    [of "blank_page\<lparr>localStorage := [''theme'' \<mapsto> ''dark'']\<rparr>"]
  show ?thesis by blast
qed

end
